theory Spec2Isabelle
  imports Main
begin

section \<open>Python values, exceptions and syntax trees\<close>

text \<open>
  The values the pipeline of \<^verbatim>\<open>pandasai/smart_dataframe/__init__.py\<close> inspects.
  A \<open>PyDict\<close> is a dictionary keyed by integers and strings, in insertion order;
  \<open>Frame\<close> is a table (a pandas or polars dataframe, named by an identifier),
  \<open>SmartDf\<close> a table wrapped again by the \<^verbatim>\<open>SmartDataframe\<close> constructor, and
  \<open>Obj\<close> any other object (a module, a function, a float, ...), whose behaviour is left
  to the collaborators below.
\<close>

datatype pykey = KInt int | KStr string

datatype pyval =
    PyNone
  | PyInt int
  | PyStr string
  | PyList "pyval list"
  | PyDict "(pykey \<times> pyval) list"
  | Frame nat
  | SmartDf nat
  | Obj string

text \<open>
  Instances of Python's \<^verbatim>\<open>Exception\<close>, the class both \<^verbatim>\<open>except\<close> clauses of the
  source name. Each carries the text \<^verbatim>\<open>str(exception)\<close> gives, but \<open>BadImportError\<close>,
  which carries the library name it was raised with. \<open>Raised\<close> is any other exception
  of executed code or of a collaborator: its class and its text.
\<close>

datatype exn =
    SyntaxError string
  | BadImportError string
  | AttributeError string
  | IndexError string
  | KeyError string
  | TypeError string
  | NameError string
  | UnboundLocalError string
  | Raised string string

text \<open>Decimal numerals, as \<^verbatim>\<open>str\<close> and f-strings print integers.\<close>

fun str_nat :: "nat \<Rightarrow> string" where
  "str_nat n =
     (if n < 10 then [''0123456789'' ! n]
      else str_nat (n div 10) @ [''0123456789'' ! (n mod 10)])"

definition str_int :: "int \<Rightarrow> string" where
  "str_int i = (if i < 0 then ''-'' @ str_nat (nat (- i)) else str_nat (nat i))"

text \<open>\<^verbatim>\<open>repr\<close> of a key; a string's quotes and escapes are not worked out.\<close>

definition quoted :: "string \<Rightarrow> string" where
  "quoted t = [CHR 0x27] @ t @ [CHR 0x27]"

fun repr_key :: "pykey \<Rightarrow> string" where
  "repr_key (KInt i) = str_int i"
| "repr_key (KStr k) = quoted k"

text \<open>
  Modelled from the spec: \<^verbatim>\<open>pandasai/exceptions.py\<close> is not among the sources; the
  text of a \<open>BadImportError\<close> identifies the offending module.
\<close>

fun str_exn :: "exn \<Rightarrow> string" where
  "str_exn (SyntaxError m) = m"
| "str_exn (BadImportError library) =
     ''Generated code includes import of '' @ library @ '' which is not in whitelist.''"
| "str_exn (AttributeError m) = m"
| "str_exn (IndexError m) = m"
| "str_exn (KeyError m) = m"
| "str_exn (TypeError m) = m"
| "str_exn (NameError m) = m"
| "str_exn (UnboundLocalError m) = m"
| "str_exn (Raised c m) = m"

text \<open>
  The part of Python's \<^verbatim>\<open>ast\<close> the sanitizer looks at. An \<open>import_alias\<close> is one imported
  name with its optional \<^verbatim>\<open>as\<close> name. \<open>Import\<close> is \<^verbatim>\<open>import a, b as c\<close>;
  \<open>ImportFrom\<close> is \<^verbatim>\<open>from m import a, b as c\<close> with its module (absent in
  \<^verbatim>\<open>from . import a\<close>) and its level; \<open>Assign\<close> is \<^verbatim>\<open>t1 = t2 = value\<close>, with its
  targets in order. The statements the sanitizer does not tell apart are \<open>If\<close> (with
  the nested bodies of its two branches) and \<open>Other\<close>, any other statement, simple or
  compound, by its source text. Expressions are names, constants and \<open>OtherExpr\<close>, any
  other expression.
\<close>

datatype expr =
    Name string
  | Const pyval
  | OtherExpr string

datatype import_alias = Alias (name: string) (asname: "string option")

datatype stmt =
    Import "import_alias list"
  | ImportFrom "string option" "import_alias list" nat
  | Assign "expr list" expr
  | If expr "stmt list" "stmt list"
  | Other string

text \<open>
  A code string is represented by what \<^verbatim>\<open>ast.parse\<close> makes of it: the list of its
  top-level statements, or the \<^verbatim>\<open>SyntaxError\<close> the parser raises. \<^verbatim>\<open>astor.to_source\<close>
  followed by a later parse is taken to give the tree back.
\<close>

datatype code = Module "stmt list" | Unparsable string

fun ast_parse :: "code \<Rightarrow> exn + stmt list" where
  "ast_parse (Module body) = Inr body"
| "ast_parse (Unparsable m) = Inl (SyntaxError m)"

section \<open>Configuration, collaborators and instance state\<close>

text \<open>The execution environment: a Python dictionary from binding names to values.\<close>

type_synonym env = "string \<rightharpoonup> pyval"

text \<open>One entry of \<^verbatim>\<open>_additional_dependencies\<close>.\<close>

record dependency =
  dep_module :: string
  dep_name :: string
  dep_alias :: string

text \<open>What \<^verbatim>\<open>query\<close> stores in \<^verbatim>\<open>_original_instructions\<close>.\<close>

record instructions =
  question :: string
  df_head :: string
  num_rows :: nat
  num_columns :: nat

text \<open>The prompts handed to the generation service.\<close>

datatype prompt =
    GeneratePythonCodePrompt string string nat nat
  | CorrectErrorPrompt code exn instructions
  | GenerateResponsePrompt string pyval

text \<open>The fields of \<^verbatim>\<open>Config\<close> the pipeline reads.\<close>

record config =
  enforce_privacy :: bool
  enable_cache :: bool
  anonymize_dataframe :: bool
  use_error_correction_framework :: bool
  conversational_answer :: bool
  save_charts :: bool
  custom_whitelisted_dependencies :: "string list"
  max_retries :: int

text \<open>
  Everything the source file imports or calls but does not define, over a state \<open>'w\<close>
  of the world outside the instance (the generation service, the cache store, the
  interpreter's surroundings): the two constants of \<^verbatim>\<open>pandasai/constants.py\<close>, Python's
  \<^verbatim>\<open>exec\<close> (the exception it raises, if any, and the environment as the code left
  it), the generation service, the cache, the helpers and pandas itself.
\<close>

record 'w collab =
  WHITELISTED_LIBRARIES :: "string list"
  WHITELISTED_BUILTINS :: "string list"
  exec :: "code \<Rightarrow> env \<Rightarrow> 'w \<Rightarrow> (exn option \<times> env) \<times> 'w"
  llm_generate_code :: "prompt \<Rightarrow> 'w \<Rightarrow> (exn + code) \<times> 'w"
  llm_call :: "prompt \<Rightarrow> 'w \<Rightarrow> (exn + pyval) \<times> 'w"
  cache_get :: "string \<Rightarrow> 'w \<Rightarrow> (exn + code option) \<times> 'w"
  cache_set :: "string \<Rightarrow> code \<Rightarrow> 'w \<Rightarrow> exn option \<times> 'w"
  describe_df :: "pyval \<Rightarrow> nat \<Rightarrow> bool \<Rightarrow> exn + string \<times> nat \<times> nat"
  add_save_chart :: "code \<Rightarrow> exn + code"
  import_dependency :: "string \<Rightarrow> exn + pyval"
  has_attr :: "pyval \<Rightarrow> string \<Rightarrow> bool"
  get_attr :: "pyval \<Rightarrow> string \<Rightarrow> pyval"
  builtin_obj :: "string \<Rightarrow> exn + pyval"
  obj_len :: "pyval \<Rightarrow> exn + nat"
  obj_getitem :: "pyval \<Rightarrow> pyval \<Rightarrow> exn + pyval"
  show_plot :: "pyval \<Rightarrow> 'w \<Rightarrow> exn option \<times> 'w"
  pandas :: pyval
  build_class :: pyval

text \<open>
  What the instance keeps between calls, with the world's state \<open>ext\<close> and two
  observations of a run that the source does not keep: \<open>executions\<close>, one entry per
  call of \<^verbatim>\<open>exec\<close> (the code, the environment before and after, the exception
  raised), and \<open>corrections\<close>, one entry per request \<^verbatim>\<open>_retry_run_code\<close> sends to the
  generation service (the code and the error handed over).
\<close>

record execution =
  ex_code :: code
  ex_env_in :: env
  ex_env_out :: env
  ex_error :: "exn option"

record 'w sdf =
  df :: pyval
  middlewares :: "(code \<Rightarrow> exn + code) list"
  additional_dependencies :: "dependency list"
  original_instructions :: "instructions option"
  last_code_generated :: "code option"
  last_code_executed :: "code option"
  last_result :: "pyval option"
  last_error :: "string option"
  ext :: 'w
  executions :: "execution list"
  corrections :: "(code \<times> exn) list"

section \<open>The sanitizer\<close>

text \<open>
  \<^verbatim>\<open>re.match(r"df\d{0,2}$", id)\<close> on an identifier: \<^verbatim>\<open>df\<close>, then at most two digits,
  then the end. Identifiers are taken to be ASCII, so \<^verbatim>\<open>\d\<close> is one of 0 to 9.
\<close>

definition is_digit :: "char \<Rightarrow> bool" where
  "is_digit c = (c \<in> set ''0123456789'')"

fun matches_df :: "string \<Rightarrow> bool" where
  "matches_df (c1 # c2 # rest) =
     (c1 = CHR ''d'' \<and> c2 = CHR ''f'' \<and> length rest \<le> 2 \<and> list_all is_digit rest)"
| "matches_df _ = False"

text \<open>
  \<^verbatim>\<open>_is_df_overwrite\<close>: an \<^verbatim>\<open>ast.Assign\<close> whose first target is such a name. The parser
  gives every assignment a target; on an \<^verbatim>\<open>ast.Assign\<close> without one, \<^verbatim>\<open>node.targets[0]\<close>
  raises, which \<open>no_targets\<close> tells.
\<close>

fun no_targets :: "stmt \<Rightarrow> bool" where
  "no_targets (Assign [] v) = True"
| "no_targets _ = False"

fun is_df_overwrite :: "stmt \<Rightarrow> bool" where
  "is_df_overwrite (Assign (Name n # ts) v) = matches_df n"
| "is_df_overwrite _ = False"

fun is_import :: "stmt \<Rightarrow> bool" where
  "is_import (Import names) = True"
| "is_import (ImportFrom m names level) = True"
| "is_import _ = False"

text \<open>\<^verbatim>\<open>module.split(".")[0]\<close>\<close>

definition library_of :: "string \<Rightarrow> string" where
  "library_of m = takeWhile (\<lambda>c. c \<noteq> CHR ''.'') m"

text \<open>The module \<^verbatim>\<open>_check_imports\<close> reads off a node, and the names it imports.\<close>

fun node_module :: "stmt \<Rightarrow> exn + string" where
  "node_module (Import []) = Inl (IndexError ''list index out of range'')"
| "node_module (Import (a # names)) = Inr (name a)"
| "node_module (ImportFrom (Some m) names level) = Inr m"
| "node_module (ImportFrom None names level) =
     Inl (AttributeError (quoted ''NoneType'' @ '' object has no attribute '' @ quoted ''split''))"
| "node_module _ = Inl (AttributeError (''object has no attribute '' @ quoted ''module''))"

fun node_names :: "stmt \<Rightarrow> import_alias list" where
  "node_names (Import names) = names"
| "node_names (ImportFrom m names level) = names"
| "node_names _ = []"

text \<open>\<^verbatim>\<open>alias.asname or alias.name\<close>\<close>

fun bound_name :: "import_alias \<Rightarrow> string" where
  "bound_name (Alias n None) = n"
| "bound_name (Alias n (Some a)) = (if a = [] then n else a)"

definition dependency_of :: "string \<Rightarrow> import_alias \<Rightarrow> dependency" where
  "dependency_of m a = \<lparr>dep_module = m, dep_name = name a, dep_alias = bound_name a\<rparr>"

text \<open>
  \<^verbatim>\<open>_check_imports\<close>, on the dependency list collected so far: the list with the
  node's dependencies appended, or the exception raised.
\<close>

definition check_imports ::
  "'w collab \<Rightarrow> config \<Rightarrow> stmt \<Rightarrow> dependency list \<Rightarrow> exn + dependency list" where
  "check_imports col cfg node deps =
     (case node_module node of
        Inl e \<Rightarrow> Inl e
      | Inr m \<Rightarrow>
          (let library = library_of m in
           if library = ''pandas'' then Inr deps
           else if library \<in> set (WHITELISTED_LIBRARIES col @ custom_whitelisted_dependencies cfg)
             then Inr (deps @ map (dependency_of m) (node_names node))
           else if library \<notin> set (WHITELISTED_BUILTINS col) then Inl (BadImportError library)
           else Inr deps))"

text \<open>
  The loop of \<^verbatim>\<open>_clean_code\<close> over \<^verbatim>\<open>tree.body\<close>, with \<^verbatim>\<open>new_body\<close> and the dependency
  list as they stand; the list is returned also when a statement raises.
\<close>

fun clean_body ::
  "'w collab \<Rightarrow> config \<Rightarrow> stmt list \<Rightarrow> stmt list \<Rightarrow> dependency list
     \<Rightarrow> (exn + stmt list) \<times> dependency list" where
  "clean_body col cfg [] new_body deps = (Inr new_body, deps)"
| "clean_body col cfg (node # rest) new_body deps =
     (if is_import node then
        (case check_imports col cfg node deps of
           Inl e \<Rightarrow> (Inl e, deps)
         | Inr deps' \<Rightarrow> clean_body col cfg rest new_body deps')
      else if no_targets node then (Inl (IndexError ''list index out of range''), deps)
      else if is_df_overwrite node then clean_body col cfg rest new_body deps
      else clean_body col cfg rest (new_body @ [node]) deps)"

text \<open>
  \<^verbatim>\<open>_clean_code\<close>: a parse failure leaves \<^verbatim>\<open>_additional_dependencies\<close> as it was; after
  a parse the list starts empty.
\<close>

definition clean_code :: "'w collab \<Rightarrow> config \<Rightarrow> code \<Rightarrow> 'w sdf \<Rightarrow> (exn + code) \<times> 'w sdf" where
  "clean_code col cfg c s =
     (case ast_parse c of
        Inl e \<Rightarrow> (Inl e, s)
      | Inr body \<Rightarrow>
          (case clean_body col cfg body [] [] of
             (Inl e, deps) \<Rightarrow> (Inl e, s\<lparr>additional_dependencies := deps\<rparr>)
           | (Inr new_body, deps) \<Rightarrow>
               (Inr (Module new_body), s\<lparr>additional_dependencies := deps\<rparr>)))"

section \<open>The environment builder\<close>

text \<open>A dictionary store: an existing key keeps its place, a new one goes last.\<close>

fun dict_set :: "(pykey \<times> pyval) list \<Rightarrow> pykey \<Rightarrow> pyval \<Rightarrow> (pykey \<times> pyval) list" where
  "dict_set [] k v = [(k, v)]"
| "dict_set ((k', v') # kvs) k v =
     (if k' = k then (k, v) # kvs else (k', v') # dict_set kvs k v)"

text \<open>
  The comprehension of \<^verbatim>\<open>_get_environment\<close> over \<^verbatim>\<open>_additional_dependencies\<close>: the
  attribute of the module when it has one of that name, the module otherwise, under the
  alias; a later entry overrides an earlier one of the same alias. \<^verbatim>\<open>import_dependency\<close>
  is taken to answer alike each time it is asked for a module.
\<close>

fun lib_bindings :: "'w collab \<Rightarrow> dependency list \<Rightarrow> env \<Rightarrow> exn + env" where
  "lib_bindings col [] environment = Inr environment"
| "lib_bindings col (lib # libs) environment =
     (case import_dependency col (dep_module lib) of
        Inl e \<Rightarrow> Inl e
      | Inr m \<Rightarrow>
          lib_bindings col libs
            (environment(dep_alias lib \<mapsto>
               (if has_attr col m (dep_name lib) then get_attr col m (dep_name lib) else m))))"

text \<open>\<^verbatim>\<open>{builtin: __builtins__[builtin] for builtin in WHITELISTED_BUILTINS}\<close>\<close>

fun builtins_dict ::
  "'w collab \<Rightarrow> string list \<Rightarrow> (pykey \<times> pyval) list \<Rightarrow> exn + (pykey \<times> pyval) list" where
  "builtins_dict col [] d = Inr d"
| "builtins_dict col (b # bs) d =
     (case builtin_obj col b of
        Inl e \<Rightarrow> Inl e
      | Inr v \<Rightarrow> builtins_dict col bs (dict_set d (KStr b) v))"

text \<open>\<^verbatim>\<open>_get_environment\<close>\<close>

definition get_environment :: "'w collab \<Rightarrow> 'w sdf \<Rightarrow> exn + env" where
  "get_environment col s =
     (case lib_bindings col (additional_dependencies s) [''pd'' \<mapsto> pandas col] of
        Inl e \<Rightarrow> Inl e
      | Inr environment \<Rightarrow>
          (case builtins_dict col (WHITELISTED_BUILTINS col) [] of
             Inl e \<Rightarrow> Inl e
           | Inr d \<Rightarrow>
               Inr (environment(''__builtins__'' \<mapsto>
                 PyDict (dict_set (dict_set d (KStr ''__build_class__'') (build_class col))
                   (KStr ''__name__'') (PyStr ''__main__''))))))"

text \<open>
  \<^verbatim>\<open>{f"df{i}": dataframe for i, dataframe in enumerate(data_frame, start=1)}\<close>, stored
  into the environment.
\<close>

fun bind_tables :: "pyval list \<Rightarrow> nat \<Rightarrow> env \<Rightarrow> env" where
  "bind_tables [] i environment = environment"
| "bind_tables (t # ts) i environment = bind_tables ts (Suc i) (environment(''df'' @ str_nat i \<mapsto> t))"

section \<open>Execution and the retry loop\<close>

text \<open>
  \<^verbatim>\<open>_retry_run_code\<close>: the request for corrected code. Reading \<^verbatim>\<open>_original_instructions\<close>
  before any query has stored it fails (the class only annotates the attribute, and the
  lookup passes on to the table).
\<close>

definition retry_run_code :: "'w collab \<Rightarrow> code \<Rightarrow> exn \<Rightarrow> 'w sdf \<Rightarrow> (exn + code) \<times> 'w sdf" where
  "retry_run_code col c e s =
     (case original_instructions s of
        None \<Rightarrow> (Inl (AttributeError ''_original_instructions''), s)
      | Some ins \<Rightarrow>
          (case llm_generate_code col (CorrectErrorPrompt c e ins) (ext s) of
             (r, w') \<Rightarrow> (r, s\<lparr>ext := w', corrections := corrections s @ [(c, e)]\<rparr>)))"

text \<open>One call \<^verbatim>\<open>exec(code_to_run, environment)\<close>, observed.\<close>

definition exec_observed ::
  "'w collab \<Rightarrow> code \<Rightarrow> env \<Rightarrow> 'w sdf \<Rightarrow> (exn option \<times> env) \<times> 'w sdf" where
  "exec_observed col code_to_run environment s =
     (case exec col code_to_run environment (ext s) of
        ((err, environment'), w') \<Rightarrow>
          ((err, environment'),
           s\<lparr>ext := w',
             executions := executions s @
               [\<lparr>ex_code = code_to_run, ex_env_in = environment,
                 ex_env_out = environment', ex_error = err\<rparr>]\<rparr>))"

text \<open>
  The \<^verbatim>\<open>while count < self._config.max_retries\<close> loop of \<^verbatim>\<open>run_code\<close>, from the
  values of \<^verbatim>\<open>code\<close>, \<^verbatim>\<open>code_to_run\<close>, \<^verbatim>\<open>environment\<close> and \<^verbatim>\<open>count\<close> at its head:
  the environment when the loop is left, or the exception that leaves \<^verbatim>\<open>run_code\<close>.
\<close>

function run_loop ::
  "'w collab \<Rightarrow> config \<Rightarrow> bool \<Rightarrow> code \<Rightarrow> code \<Rightarrow> env \<Rightarrow> int \<Rightarrow> 'w sdf
     \<Rightarrow> (exn + env) \<times> 'w sdf" where
  "run_loop col cfg ecf c code_to_run environment count s =
     (if count < max_retries cfg then
        (case exec_observed col code_to_run environment s of
           ((None, environment'), s1) \<Rightarrow> (Inr environment', s1)
         | ((Some e, environment'), s1) \<Rightarrow>
             (if \<not> ecf then (Inl e, s1)
              else
                (case retry_run_code col c e s1 of
                   (Inl e', s2) \<Rightarrow> (Inl e', s2)
                 | (Inr code_to_run', s2) \<Rightarrow>
                     run_loop col cfg ecf c code_to_run' environment' (count + 1) s2)))
      else (Inr environment, s))"
  by pat_completeness auto
termination
  by (relation "measure (\<lambda>(col, cfg, ecf, c, code_to_run, environment, count, s).
        nat (max_retries cfg - count))") auto

declare run_loop.simps [simp del]

text \<open>\<^verbatim>\<open>isinstance(data_frame, list)\<close>\<close>

fun is_list :: "pyval \<Rightarrow> bool" where
  "is_list (PyList ts) = True"
| "is_list _ = False"

fun list_items :: "pyval \<Rightarrow> pyval list" where
  "list_items (PyList ts) = ts"
| "list_items _ = []"

text \<open>\<^verbatim>\<open>environment.get("result", None)\<close>\<close>

definition get_result :: "env \<Rightarrow> pyval" where
  "get_result environment = (case environment ''result'' of None \<Rightarrow> PyNone | Some v \<Rightarrow> v)"

text \<open>
  The lines of \<^verbatim>\<open>run_code\<close> before the branch on \<^verbatim>\<open>multiple\<close>: the chart-saving
  rewrite, the sanitizer, \<^verbatim>\<open>last_code_executed\<close> and the environment. They give the
  values of \<^verbatim>\<open>code\<close>, \<^verbatim>\<open>code_to_run\<close> and \<^verbatim>\<open>environment\<close>.
\<close>

definition prepare_run ::
  "'w collab \<Rightarrow> config \<Rightarrow> code \<Rightarrow> 'w sdf \<Rightarrow> (exn + code \<times> code \<times> env) \<times> 'w sdf" where
  "prepare_run col cfg c0 s =
     (case (if save_charts cfg then add_save_chart col c0 else Inr c0) of
        Inl e \<Rightarrow> (Inl e, s)
      | Inr c \<Rightarrow>
          (case clean_code col cfg c s of
             (Inl e, s1) \<Rightarrow> (Inl e, s1)
           | (Inr code_to_run, s1) \<Rightarrow>
               (let s2 = s1\<lparr>last_code_executed := Some code_to_run\<rparr> in
                case get_environment col s2 of
                  Inl e \<Rightarrow> (Inl e, s2)
                | Inr environment \<Rightarrow> (Inr (c, code_to_run, environment), s2))))"

text \<open>
  \<^verbatim>\<open>run_code\<close>. With a list of tables the body of the \<^verbatim>\<open>else\<close> branch, the loop and
  the assignment of \<^verbatim>\<open>result\<close> with it, is passed over, and the last line reads a
  local variable that was never assigned.
\<close>

definition run_code ::
  "'w collab \<Rightarrow> config \<Rightarrow> code \<Rightarrow> pyval \<Rightarrow> bool \<Rightarrow> 'w sdf \<Rightarrow> (exn + pyval) \<times> 'w sdf" where
  "run_code col cfg c0 data_frame ecf s =
     (let multiple = is_list data_frame in
      case prepare_run col cfg c0 s of
        (Inl e, s2) \<Rightarrow> (Inl e, s2)
      | (Inr (c, code_to_run, environment), s2) \<Rightarrow>
          (if multiple then
             (let environment' = bind_tables (list_items data_frame) 1 environment in
              (Inl (UnboundLocalError
                 ''local variable 'result' referenced before assignment''), s2))
           else
             (case run_loop col cfg ecf c code_to_run
                     (environment(''df'' \<mapsto> data_frame)) 0 s2 of
                (Inl e, s3) \<Rightarrow> (Inl e, s3)
              | (Inr environment', s3) \<Rightarrow> (Inr (get_result environment'), s3))))"

section \<open>The query entry point\<close>

text \<open>
  Python's \<^verbatim>\<open>len\<close> and subscription on the values above, with the texts CPython gives
  its errors; tables and other objects answer through the collaborators.
\<close>

fun py_len :: "'w collab \<Rightarrow> pyval \<Rightarrow> exn + nat" where
  "py_len col PyNone = Inl (TypeError ''object of type 'NoneType' has no len()'')"
| "py_len col (PyInt i) = Inl (TypeError ''object of type 'int' has no len()'')"
| "py_len col (PyStr t) = Inr (length t)"
| "py_len col (PyList xs) = Inr (length xs)"
| "py_len col (PyDict kvs) = Inr (length kvs)"
| "py_len col v = obj_len col v"

definition list_index :: "'a list \<Rightarrow> int \<Rightarrow> 'a option" where
  "list_index xs i =
     (let n = int (length xs); j = (if i < 0 then n + i else i)
      in if 0 \<le> j \<and> j < n then Some (xs ! nat j) else None)"

fun py_getitem :: "'w collab \<Rightarrow> pyval \<Rightarrow> pyval \<Rightarrow> exn + pyval" where
  "py_getitem col PyNone k = Inl (TypeError (quoted ''NoneType'' @ '' object is not subscriptable''))"
| "py_getitem col (PyInt i) k = Inl (TypeError (quoted ''int'' @ '' object is not subscriptable''))"
| "py_getitem col (PyStr t) (PyInt i) =
     (case list_index t i of
        None \<Rightarrow> Inl (IndexError ''string index out of range'')
      | Some c \<Rightarrow> Inr (PyStr [c]))"
| "py_getitem col (PyStr t) (Obj k) = obj_getitem col (PyStr t) (Obj k)"
| "py_getitem col (PyStr t) k = Inl (TypeError ''string indices must be integers'')"
| "py_getitem col (PyList xs) (PyInt i) =
     (case list_index xs i of
        None \<Rightarrow> Inl (IndexError ''list index out of range'')
      | Some v \<Rightarrow> Inr v)"
| "py_getitem col (PyList xs) (Obj k) = obj_getitem col (PyList xs) (Obj k)"
| "py_getitem col (PyList xs) k = Inl (TypeError ''list indices must be integers or slices'')"
| "py_getitem col (PyDict kvs) (PyInt i) =
     (case map_of kvs (KInt i) of None \<Rightarrow> Inl (KeyError (repr_key (KInt i))) | Some v \<Rightarrow> Inr v)"
| "py_getitem col (PyDict kvs) (PyStr k) =
     (case map_of kvs (KStr k) of None \<Rightarrow> Inl (KeyError (repr_key (KStr k))) | Some v \<Rightarrow> Inr v)"
| "py_getitem col (PyDict kvs) PyNone = Inl (KeyError ''None'')"
| "py_getitem col (PyDict kvs) (PyList xs) = Inl (TypeError (''unhashable type: '' @ quoted ''list''))"
| "py_getitem col (PyDict kvs) (PyDict d) = Inl (TypeError (''unhashable type: '' @ quoted ''dict''))"
| "py_getitem col (PyDict kvs) k = obj_getitem col (PyDict kvs) k"
| "py_getitem col v k = obj_getitem col v k"

text \<open>
  The head of the \<^verbatim>\<open>try\<close> block of \<^verbatim>\<open>query\<close>: the cached code, or the code the
  generation service writes. The constructor makes \<^verbatim>\<open>_cache\<close> when \<^verbatim>\<open>enable_cache\<close>
  holds; the two reads of the cache on a hit are taken to agree, and \<open>None\<close> is a
  missing or empty entry.
\<close>

definition generate :: "'w collab \<Rightarrow> config \<Rightarrow> string \<Rightarrow> 'w sdf \<Rightarrow> (exn + code) \<times> 'w sdf" where
  "generate col cfg q s =
     (let rows_to_display = (if enforce_privacy cfg then 0 else 5) in
      case describe_df col (df s) rows_to_display (anonymize_dataframe cfg) of
        Inl e \<Rightarrow> (Inl e, s)
      | Inr (head, rows, cols) \<Rightarrow>
          (case llm_generate_code col (GeneratePythonCodePrompt q head rows cols) (ext s) of
             (Inl e, w) \<Rightarrow> (Inl e, s\<lparr>ext := w\<rparr>)
           | (Inr c, w) \<Rightarrow>
               (let s1 = s\<lparr>ext := w,
                           original_instructions :=
                             Some \<lparr>question = q, df_head = head,
                                   num_rows = rows, num_columns = cols\<rparr>\<rparr>
                in if enable_cache cfg then
                     (case cache_set col q c (ext s1) of
                        (Some e, w') \<Rightarrow> (Inl e, s1\<lparr>ext := w'\<rparr>)
                      | (None, w') \<Rightarrow> (Inr c, s1\<lparr>ext := w'\<rparr>))
                   else (Inr c, s1))))"

definition cached_or_generated ::
  "'w collab \<Rightarrow> config \<Rightarrow> string \<Rightarrow> 'w sdf \<Rightarrow> (exn + code) \<times> 'w sdf" where
  "cached_or_generated col cfg q s =
     (if enable_cache cfg then
        (case cache_get col q (ext s) of
           (Inl e, w) \<Rightarrow> (Inl e, s\<lparr>ext := w\<rparr>)
         | (Inr (Some c), w) \<Rightarrow> (Inr c, s\<lparr>ext := w\<rparr>)
         | (Inr None, w) \<Rightarrow> generate col cfg q (s\<lparr>ext := w\<rparr>))
      else generate col cfg q s)"

text \<open>\<^verbatim>\<open>for middleware in self._middlewares: code = middleware(code)\<close>\<close>

fun run_middlewares :: "(code \<Rightarrow> exn + code) list \<Rightarrow> code \<Rightarrow> exn + code" where
  "run_middlewares [] c = Inr c"
| "run_middlewares (m # ms) c =
     (case m c of Inl e \<Rightarrow> Inl e | Inr c' \<Rightarrow> run_middlewares ms c')"

text \<open>The method \<^verbatim>\<open>conversational_answer\<close>.\<close>

definition conversational_answer_fn ::
  "'w collab \<Rightarrow> config \<Rightarrow> string \<Rightarrow> pyval \<Rightarrow> 'w sdf \<Rightarrow> (exn + pyval) \<times> 'w sdf" where
  "conversational_answer_fn col cfg q answer s =
     (if enforce_privacy cfg then (Inr answer, s)
      else
        (case llm_call col (GenerateResponsePrompt q answer) (ext s) of
           (r, w) \<Rightarrow> (r, s\<lparr>ext := w\<rparr>)))"

text \<open>
  \<^verbatim>\<open>SmartDataframe(output["result"], config=...)\<close>: \<^verbatim>\<open>load_engine\<close> accepts a table;
  for another value \<^verbatim>\<open>_engine\<close> is never assigned and reading it fails.
\<close>

fun smart_dataframe :: "pyval \<Rightarrow> exn + pyval" where
  "smart_dataframe (Frame t) = Inr (SmartDf t)"
| "smart_dataframe v = Inl (AttributeError ''_engine'')"

text \<open>
  The dispatch on \<^verbatim>\<open>output["type"]\<close>; the plot branch shows the image and falls off
  the end of the method, which returns \<^verbatim>\<open>None\<close>.
\<close>

definition dispatch :: "'w collab \<Rightarrow> pyval \<Rightarrow> 'w sdf \<Rightarrow> (exn + pyval) \<times> 'w sdf" where
  "dispatch col output s =
     (case py_getitem col output (PyStr ''type'') of
        Inl e \<Rightarrow> (Inl e, s)
      | Inr ty \<Rightarrow>
          (if ty = PyStr ''dataframe'' then
             (case py_getitem col output (PyStr ''result'') of
                Inl e \<Rightarrow> (Inl e, s)
              | Inr v \<Rightarrow> (smart_dataframe v, s))
           else if ty = PyStr ''plot'' then
             (case py_getitem col output (PyStr ''result'') of
                Inl e \<Rightarrow> (Inl e, s)
              | Inr v \<Rightarrow>
                  (case show_plot col v (ext s) of
                     (Some e, w) \<Rightarrow> (Inl e, s\<lparr>ext := w\<rparr>)
                   | (None, w) \<Rightarrow> (Inr PyNone, s\<lparr>ext := w\<rparr>)))
           else
             (case py_getitem col output (PyStr ''result'') of
                Inl e \<Rightarrow> (Inl e, s)
              | Inr v \<Rightarrow> (Inr v, s))))"

text \<open>The \<^verbatim>\<open>if len(results) > 1\<close> block.\<close>

definition classify ::
  "'w collab \<Rightarrow> config \<Rightarrow> string \<Rightarrow> pyval \<Rightarrow> 'w sdf \<Rightarrow> (exn + pyval) \<times> 'w sdf" where
  "classify col cfg q results s =
     (case py_len col results of
        Inl e \<Rightarrow> (Inl e, s)
      | Inr n \<Rightarrow>
          (if n > 1 then
             (case py_getitem col results (PyInt 1) of
                Inl e \<Rightarrow> (Inl e, s)
              | Inr output \<Rightarrow>
                  (if conversational_answer cfg then
                     (case py_getitem col output (PyStr ''result'') of
                        Inl e \<Rightarrow> (Inl e, s)
                      | Inr answer \<Rightarrow>
                          (case conversational_answer_fn col cfg q answer s of
                             (Inl e, s1) \<Rightarrow> (Inl e, s1)
                           | (Inr output', s1) \<Rightarrow> dispatch col output' s1))
                   else dispatch col output s))
           else (Inr PyNone, s)))"

text \<open>The code \<^verbatim>\<open>query\<close> hands to \<^verbatim>\<open>run_code\<close>: cached or generated, then rewritten
  by the middlewares in order.\<close>

definition code_for_query ::
  "'w collab \<Rightarrow> config \<Rightarrow> string \<Rightarrow> 'w sdf \<Rightarrow> (exn + code) \<times> 'w sdf" where
  "code_for_query col cfg q s =
     (case cached_or_generated col cfg q s of
        (Inl e, s1) \<Rightarrow> (Inl e, s1)
      | (Inr c, s1) \<Rightarrow>
          (let s2 = s1\<lparr>last_code_generated := Some c\<rparr> in
           (run_middlewares (middlewares s2) c, s2)))"

text \<open>The body of the \<^verbatim>\<open>try\<close> block.\<close>

definition query_try :: "'w collab \<Rightarrow> config \<Rightarrow> string \<Rightarrow> 'w sdf \<Rightarrow> (exn + pyval) \<times> 'w sdf" where
  "query_try col cfg q s =
     (case code_for_query col cfg q s of
        (Inl e, s2) \<Rightarrow> (Inl e, s2)
      | (Inr c, s2) \<Rightarrow>
          (case run_code col cfg c (df s2) (use_error_correction_framework cfg) s2 of
             (Inl e, s3) \<Rightarrow> (Inl e, s3)
           | (Inr results, s3) \<Rightarrow>
               classify col cfg q results (s3\<lparr>last_result := Some results\<rparr>)))"

definition failure_message :: "exn \<Rightarrow> string" where
  "failure_message e =
     ''Unfortunately, I was not able to answer your question, '' @
     ''because of the following error:\<newline>'' @
     ''\<newline>'' @ str_exn e @ ''\<newline>''"

text \<open>
  \<^verbatim>\<open>query\<close>, from its \<^verbatim>\<open>try\<close> on: what the call returns, or the exception it lets
  through. The timer, the two log lines (the second reads the type of the LLM the
  instance has loaded) and the prompt identifier before the \<^verbatim>\<open>try\<close> are left out, as
  are the log lines inside it.
\<close>

definition query :: "'w collab \<Rightarrow> config \<Rightarrow> string \<Rightarrow> 'w sdf \<Rightarrow> (exn + pyval) \<times> 'w sdf" where
  "query col cfg q s =
     (case query_try col cfg q s of
        (Inl exception, s') \<Rightarrow>
          (Inr (PyStr (failure_message exception)), s'\<lparr>last_error := Some (str_exn exception)\<rparr>)
      | (Inr v, s') \<Rightarrow> (Inr v, s'))"

section \<open>A fragment of Python's exec, and sample collaborators\<close>

text \<open>
  What \<^verbatim>\<open>exec(code, environment)\<close> does on straight-line programs of assignments and
  conditionals over names and constants, used where a run is evaluated on a concrete
  input. A name is looked up in the environment, then in its \<^verbatim>\<open>__builtins__\<close>
  dictionary. A statement outside the fragment is answered by an exception that names
  it. Execution stops at the first exception, and the environment keeps the bindings
  made until then.
\<close>

definition lookup_name :: "env \<Rightarrow> string \<Rightarrow> exn + pyval" where
  "lookup_name environment n =
     (case environment n of
        Some v \<Rightarrow> Inr v
      | None \<Rightarrow>
          (case environment ''__builtins__'' of
             Some (PyDict d) \<Rightarrow>
               (case map_of d (KStr n) of
                  Some v \<Rightarrow> Inr v
                | None \<Rightarrow> Inl (NameError (''name '' @ quoted n @ '' is not defined'')))
           | _ \<Rightarrow> Inl (NameError (''name '' @ quoted n @ '' is not defined''))))"

fun eval_expr :: "env \<Rightarrow> expr \<Rightarrow> exn + pyval" where
  "eval_expr environment (Name n) = lookup_name environment n"
| "eval_expr environment (Const v) = Inr v"
| "eval_expr environment (OtherExpr t) = Inl (Raised ''OutsideFragment'' t)"

fun truthy :: "pyval \<Rightarrow> bool option" where
  "truthy PyNone = Some False"
| "truthy (PyInt i) = Some (i \<noteq> 0)"
| "truthy (PyStr t) = Some (t \<noteq> [])"
| "truthy (PyList xs) = Some (xs \<noteq> [])"
| "truthy (PyDict kvs) = Some (kvs \<noteq> [])"
| "truthy v = None"

fun assign_targets :: "expr list \<Rightarrow> pyval \<Rightarrow> env \<Rightarrow> exn option \<times> env" where
  "assign_targets [] v environment = (None, environment)"
| "assign_targets (Name n # ts) v environment = assign_targets ts v (environment(n \<mapsto> v))"
| "assign_targets (t # ts) v environment =
     (Some (Raised ''OutsideFragment'' ''assignment target''), environment)"

fun exec_stmt :: "env \<Rightarrow> stmt \<Rightarrow> exn option \<times> env"
  and exec_stmts :: "env \<Rightarrow> stmt list \<Rightarrow> exn option \<times> env" where
  "exec_stmt environment (Assign targets v) =
     (case eval_expr environment v of
        Inl e \<Rightarrow> (Some e, environment)
      | Inr x \<Rightarrow> assign_targets targets x environment)"
| "exec_stmt environment (If test body orelse) =
     (case eval_expr environment test of
        Inl e \<Rightarrow> (Some e, environment)
      | Inr x \<Rightarrow>
          (case truthy x of
             None \<Rightarrow> (Some (Raised ''OutsideFragment'' ''truth value''), environment)
           | Some b \<Rightarrow>
               (if b then exec_stmts environment body else exec_stmts environment orelse)))"
| "exec_stmt environment (Import names) =
     (Some (Raised ''OutsideFragment'' ''import''), environment)"
| "exec_stmt environment (ImportFrom m names level) =
     (Some (Raised ''OutsideFragment'' ''import''), environment)"
| "exec_stmt environment (Other t) = (Some (Raised ''OutsideFragment'' t), environment)"
| "exec_stmts environment [] = (None, environment)"
| "exec_stmts environment (node # rest) =
     (case exec_stmt environment node of
        (Some e, environment') \<Rightarrow> (Some e, environment')
      | (None, environment') \<Rightarrow> exec_stmts environment' rest)"

definition py_exec :: "code \<Rightarrow> env \<Rightarrow> 'w \<Rightarrow> (exn option \<times> env) \<times> 'w" where
  "py_exec c environment w =
     (case ast_parse c of
        Inl e \<Rightarrow> ((Some e, environment), w)
      | Inr body \<Rightarrow> (exec_stmts environment body, w))"

text \<open>
  A generation service that answers from a script: the world's state is the list of
  code strings it will still return, one per request.
\<close>

definition scripted_generate :: "prompt \<Rightarrow> code list \<Rightarrow> (exn + code) \<times> code list" where
  "scripted_generate p w =
     (case w of
        [] \<Rightarrow> (Inl (Raised ''RuntimeError'' ''no response''), [])
      | c # cs \<Rightarrow> (Inr c, cs))"

text \<open>
  Sample collaborators: two libraries and two builtins on the whitelists, an empty
  cache, helpers that succeed, no middleware.
\<close>

definition sample :: "code list collab" where
  "sample =
     \<lparr>WHITELISTED_LIBRARIES = [''numpy'', ''matplotlib''],
      WHITELISTED_BUILTINS = [''len'', ''print''],
      exec = py_exec,
      llm_generate_code = scripted_generate,
      llm_call = (\<lambda>p w. (Inr (PyStr ''The answer is 42.''), w)),
      cache_get = (\<lambda>q w. (Inr None, w)),
      cache_set = (\<lambda>q c w. (None, w)),
      describe_df = (\<lambda>t rows anonymize. Inr (''a,b'', 3, 2)),
      add_save_chart = Inr,
      import_dependency = (\<lambda>m. Inr (Obj m)),
      has_attr = (\<lambda>m n. False),
      get_attr = (\<lambda>m n. Obj n),
      builtin_obj = (\<lambda>b. Inr (Obj b)),
      obj_len = (\<lambda>v. Inl (TypeError ''object has no len()'')),
      obj_getitem = (\<lambda>v k. Inl (TypeError ''object is not subscriptable'')),
      show_plot = (\<lambda>v w. (None, w)),
      pandas = Obj ''pandas'',
      build_class = Obj ''__build_class__''\<rparr>"

definition sample_config :: config where
  "sample_config =
     \<lparr>enforce_privacy = False, enable_cache = False, anonymize_dataframe = True,
      use_error_correction_framework = True, conversational_answer = False,
      save_charts = False, custom_whitelisted_dependencies = [], max_retries = 3\<rparr>"

text \<open>A new instance over table 0 whose generation service will answer from \<open>script\<close>.\<close>

definition sample_instance :: "code list \<Rightarrow> code list sdf" where
  "sample_instance script =
     \<lparr>df = Frame 0, middlewares = [], additional_dependencies = [],
      original_instructions = None, last_code_generated = None, last_code_executed = None,
      last_result = None, last_error = None, ext = script, executions = [],
      corrections = []\<rparr>"

section \<open>Properties of code and of runs\<close>

text \<open>Every import statement of a program, at any depth.\<close>

fun imports_in :: "stmt \<Rightarrow> stmt list"
  and imports_in_body :: "stmt list \<Rightarrow> stmt list" where
  "imports_in (Import names) = [Import names]"
| "imports_in (ImportFrom m names level) = [ImportFrom m names level]"
| "imports_in (If test body orelse) = imports_in_body body @ imports_in_body orelse"
| "imports_in (Assign targets v) = []"
| "imports_in (Other t) = []"
| "imports_in_body [] = []"
| "imports_in_body (node # rest) = imports_in node @ imports_in_body rest"

text \<open>The top-level module an import statement names.\<close>

definition import_library :: "stmt \<Rightarrow> string" where
  "import_library node = (case node_module node of Inl e \<Rightarrow> [] | Inr m \<Rightarrow> library_of m)"

text \<open>Whether a library is on the library whitelist, static or custom.\<close>

definition whitelisted :: "'w collab \<Rightarrow> config \<Rightarrow> string \<Rightarrow> bool" where
  "whitelisted col cfg library =
     (library \<in> set (WHITELISTED_LIBRARIES col @ custom_whitelisted_dependencies cfg))"

text \<open>
  Whether the loop of \<^verbatim>\<open>_clean_code\<close> goes past a statement without raising: an import
  whose module can be read and whose library is pandas or on one of the two whitelists,
  or another statement that is no assignment without targets.
\<close>

definition passes :: "'w collab \<Rightarrow> config \<Rightarrow> stmt \<Rightarrow> bool" where
  "passes col cfg node =
     (if is_import node then
        (case node_module node of
           Inl e \<Rightarrow> False
         | Inr m \<Rightarrow>
             library_of m = ''pandas'' \<or> whitelisted col cfg (library_of m) \<or>
             library_of m \<in> set (WHITELISTED_BUILTINS col))
      else \<not> no_targets node)"

text \<open>The dependencies one statement adds when it passes.\<close>

definition dependencies_of :: "'w collab \<Rightarrow> config \<Rightarrow> stmt \<Rightarrow> dependency list" where
  "dependencies_of col cfg node =
     (case node_module node of
        Inl e \<Rightarrow> []
      | Inr m \<Rightarrow>
          (if is_import node \<and> library_of m \<noteq> ''pandas'' \<and> whitelisted col cfg (library_of m)
           then map (dependency_of m) (node_names node) else []))"

text \<open>The statements the sanitizer keeps.\<close>

definition kept :: "stmt \<Rightarrow> bool" where
  "kept node = (\<not> is_import node \<and> \<not> is_df_overwrite node)"

text \<open>
  The module of an import statement that names one: \<^verbatim>\<open>import m\<close> and
  \<^verbatim>\<open>import m as x\<close> with a single name, and \<^verbatim>\<open>from m import ...\<close>.
\<close>

fun imported_module :: "stmt \<Rightarrow> string option" where
  "imported_module (Import [a]) = Some (name a)"
| "imported_module (ImportFrom (Some m) names level) = Some m"
| "imported_module _ = None"


text \<open>
  Each execution of a run starts from the environment the one before it left, the
  first from \<open>environment\<close>.
\<close>

fun chained :: "env \<Rightarrow> execution list \<Rightarrow> bool" where
  "chained environment [] = True"
| "chained environment (x # xs) = (ex_env_in x = environment \<and> chained (ex_env_out x) xs)"

section \<open>Sample programs and runs\<close>



text \<open>\<^verbatim>\<open>result = total\<close>, which raises a \<^verbatim>\<open>NameError\<close>.\<close>

definition undefined_total :: code where
  "undefined_total = Module [Assign [Name ''result''] (Name ''total'')]"

text \<open>\<^verbatim>\<open>df = 7\<close>, then \<^verbatim>\<open>result = df\<close>.\<close>

definition overwriting :: code where
  "overwriting =
     Module [Assign [Name ''df''] (Const (PyInt 7)), Assign [Name ''result''] (Name ''df'')]"

text \<open>\<^verbatim>\<open>total = undefined\<close>, which raises a \<^verbatim>\<open>NameError\<close>.\<close>

definition only_failing :: code where
  "only_failing = Module [Assign [Name ''total''] (Name ''undefined'')]"

text \<open>
  \<^verbatim>\<open>result = [0, {"type": "string", "result": "partial"}]\<close>, then
  \<^verbatim>\<open>total = undefined\<close>, which raises.
\<close>

definition partial_then_failing :: code where
  "partial_then_failing =
     Module [Assign [Name ''result'']
               (Const (PyList [PyInt 0,
                  PyDict [(KStr ''type'', PyStr ''string''), (KStr ''result'', PyStr ''partial'')]])),
             Assign [Name ''total''] (Name ''undefined'')]"

text \<open>\<^verbatim>\<open>x = 5\<close>, then \<^verbatim>\<open>result = undefined\<close>, which raises; and \<^verbatim>\<open>result = x\<close>.\<close>

definition binding_then_failing :: code where
  "binding_then_failing =
     Module [Assign [Name ''x''] (Const (PyInt 5)), Assign [Name ''result''] (Name ''undefined'')]"

definition reading_binding :: code where
  "reading_binding = Module [Assign [Name ''result''] (Name ''x'')]"

text \<open>\<^verbatim>\<open>result = [0, {"type": "number", "result": 42}]\<close>\<close>

definition well_formed :: code where
  "well_formed =
     Module [Assign [Name ''result'']
               (Const (PyList [PyInt 0,
                  PyDict [(KStr ''type'', PyStr ''number''), (KStr ''result'', PyInt 42)]]))]"



text \<open>\<^verbatim>\<open>if 1: import m\<close>\<close>

definition nested_import :: "string \<Rightarrow> code" where
  "nested_import m = Module [If (Const (PyInt 1)) [Import [Alias m None]] []]"

section \<open>Evaluating the sample run\<close>

lemmas sample_defs =
  sample_def sample_config_def sample_instance_def scripted_generate_def py_exec_def

lemmas pipeline_defs =
  query_try_def code_for_query_def cached_or_generated_def generate_def run_code_def
  prepare_run_def clean_code_def check_imports_def library_of_def get_environment_def
  classify_def dispatch_def get_result_def exec_observed_def retry_run_code_def
  conversational_answer_fn_def lookup_name_def list_index_def

section \<open>The outermost boundary of a query\<close>



section \<open>A run that leaves the result unassigned\<close>




section \<open>The retry budget\<close>

lemma exec_observed_state:
  assumes "exec_observed col ctr env s = ((err, env'), s1)"
  shows "executions s1 =
           executions s @ [\<lparr>ex_code = ctr, ex_env_in = env, ex_env_out = env', ex_error = err\<rparr>]"
    and "corrections s1 = corrections s"
    and "original_instructions s1 = original_instructions s"
    and "exec col ctr env (ext s) = ((err, env'), ext s1)"
  using assms by (auto simp: exec_observed_def split: prod.splits)


lemma retry_run_code_executions:
  "retry_run_code col c e s = (r, s2) \<Longrightarrow> executions s2 = executions s"
  by (auto simp: retry_run_code_def split: option.splits prod.splits)

lemma clean_code_state:
  assumes "clean_code col cfg c s = (r, s1)"
  shows "executions s1 = executions s" and "corrections s1 = corrections s"
    and "original_instructions s1 = original_instructions s" and "ext s1 = ext s"
  using assms by (auto simp: clean_code_def split: sum.splits prod.splits)

lemma prepare_run_state:
  assumes "prepare_run col cfg c0 s = (r, s2)"
  shows "executions s2 = executions s" and "corrections s2 = corrections s"
    and "original_instructions s2 = original_instructions s" and "ext s2 = ext s"
  using assms
  by (auto simp: prepare_run_def Let_def split: sum.splits prod.splits dest: clean_code_state)





section \<open>The environment of a run\<close>

text \<open>
  The executions of the loop are chained: each starts from the environment the one
  before it left.
\<close>

lemma run_loop_chained:
  "\<exists>xs. executions (snd (run_loop col cfg ecf c ctr env count s)) = executions s @ xs \<and>
        chained env xs"
proof (induction col cfg ecf c ctr env count s rule: run_loop.induct)
  case (1 col cfg ecf c code_to_run environment count s)
  note unfold = run_loop.simps [of col cfg _ c code_to_run environment count s]
  show ?case
  proof (cases "count < max_retries cfg")
    case False
    then show ?thesis by (simp add: unfold)
  next
    case True
    obtain err environment' s1
      where ex: "exec_observed col code_to_run environment s = ((err, environment'), s1)"
      by (metis prod.exhaust)
    let ?x = "\<lparr>ex_code = code_to_run, ex_env_in = environment,
                ex_env_out = environment', ex_error = err\<rparr>"
    have s1: "executions s1 = executions s @ [?x]"
      by (rule exec_observed_state(1) [OF ex])
    show ?thesis
    proof (cases err)
      case None
      with True ex s1 show ?thesis by (simp add: unfold)
    next
      case (Some e)
      show ?thesis
      proof (cases ecf)
        case False
        with True ex s1 Some show ?thesis by (simp add: unfold)
      next
        case ecf: True
        obtain r s2 where re: "retry_run_code col c e s1 = (r, s2)"
          by (metis prod.exhaust)
        have s2: "executions s2 = executions s @ [?x]"
          using retry_run_code_executions [OF re] s1 by simp
        show ?thesis
        proof (cases r)
          case (Inl e')
          with True ex Some ecf re s2 show ?thesis by (simp add: unfold)
        next
          case (Inr code_to_run')
          from "1.IH" [OF True ex [symmetric] refl Some _ re [unfolded Inr, symmetric] refl] ecf
          obtain xs
            where xs: "executions
                (snd (run_loop col cfg ecf c code_to_run' environment' (count + 1) s2)) =
                executions s2 @ xs"
            and ch: "chained environment' xs"
            by auto
          have "run_loop col cfg ecf c code_to_run environment count s =
              run_loop col cfg ecf c code_to_run' environment' (count + 1) s2"
            using True ex Some ecf re Inr by (simp add: unfold)
          then have "executions (snd (run_loop col cfg ecf c code_to_run environment count s)) =
              executions s @ (?x # xs)"
            using xs s2 by simp
          moreover have "chained environment (?x # xs)"
            using ch by simp
          ultimately show ?thesis by blast
        qed
      qed
    qed
  qed
qed

text \<open>
  C8, as the code has it: \<^verbatim>\<open>run_code\<close> builds the environment once per call, with
  \<^verbatim>\<open>_get_environment\<close> from the dependencies of the code it has just sanitized, and
  binds the table in it, before the loop; the first execution of the call starts from
  that environment and every later execution of the call from the environment the
  execution before it left, with the bindings the failed attempt made.
\<close>

theorem environment_built_once_per_run:
  "case prepare_run col cfg c0 s of
     (Inl e, s2) \<Rightarrow> executions (snd (run_code col cfg c0 data_frame ecf s)) = executions s
   | (Inr (c, code_to_run, environment), s2) \<Rightarrow>
       get_environment col s2 = Inr environment \<and>
       (\<exists>xs. executions (snd (run_code col cfg c0 data_frame ecf s)) = executions s @ xs \<and>
             chained (environment(''df'' \<mapsto> data_frame)) xs)"
proof (cases "prepare_run col cfg c0 s")
  case (Pair r s2)
  note st = prepare_run_state [OF Pair]
  show ?thesis
  proof (cases r)
    case (Inl e)
    with Pair st show ?thesis by (simp add: run_code_def)
  next
    case (Inr prep)
    obtain c code_to_run environment where prep: "prep = (c, code_to_run, environment)"
      by (cases prep) auto
    have built: "get_environment col s2 = Inr environment"
      using Pair Inr prep
      by (auto simp: prepare_run_def Let_def split: sum.splits prod.splits)
    show ?thesis
    proof (cases "is_list data_frame")
      case True
      with Pair Inr prep st built show ?thesis by (simp add: run_code_def)
    next
      case False
      let ?loop = "run_loop col cfg ecf c code_to_run (environment(''df'' \<mapsto> data_frame)) 0 s2"
      from run_loop_chained [of col cfg ecf c code_to_run "environment(''df'' \<mapsto> data_frame)" 0 s2]
      obtain xs where xs: "executions (snd ?loop) = executions s2 @ xs"
        and ch: "chained (environment(''df'' \<mapsto> data_frame)) xs"
        by blast
      have "snd (run_code col cfg c0 data_frame ecf s) = snd ?loop"
        using Pair Inr prep False by (simp add: run_code_def split: prod.splits sum.splits)
      with xs ch st Pair Inr prep built show ?thesis by auto
    qed
  qed
qed

text \<open>
  The claim C8 as the specification states it fails: in the query below the first
  attempt binds \<^verbatim>\<open>x\<close> and then raises, and the second attempt starts with \<^verbatim>\<open>x\<close> bound
  and returns it, while the environment built for the second program alone has no \<^verbatim>\<open>x\<close>.
\<close>

theorem environment_shared_by_retries:
  "ex_env_in (executions (snd (query sample sample_config ''How many rows?''
      (sample_instance [binding_then_failing, reading_binding]))) ! 1) ''x'' = Some (PyInt 5) \<and>
   last_result (snd (query sample sample_config ''How many rows?''
      (sample_instance [binding_then_failing, reading_binding]))) = Some (PyInt 5) \<and>
   (case fst (prepare_run sample sample_config reading_binding (sample_instance [])) of
      Inl e \<Rightarrow> False
    | Inr (c, code_to_run, environment) \<Rightarrow> (environment(''df'' \<mapsto> Frame 0)) ''x'' = None)"
  by (simp add: sample_defs pipeline_defs run_loop.simps query_def
      binding_then_failing_def reading_binding_def)

section \<open>Defects of the retry loop and of the dispatch\<close>

text \<open>
  C1 fails on the code: the code string \<^verbatim>\<open>_retry_run_code\<close> returns is executed as it
  is. In the query below the first program raises, the generation service answers with
  \<^verbatim>\<open>df = 7; result = df\<close>, and that program is executed with its assignment to \<^verbatim>\<open>df\<close>,
  which the sanitizer would have dropped: the table binding is overwritten and
  \<^verbatim>\<open>run_code\<close> returns 7.
\<close>

theorem retried_code_is_not_sanitized:
  "map ex_code (executions (snd (query sample sample_config ''How many rows?''
      (sample_instance [undefined_total, overwriting])))) = [undefined_total, overwriting] \<and>
   fst (clean_code sample sample_config overwriting (sample_instance [])) =
     Inr (Module [Assign [Name ''result''] (Name ''df'')]) \<and>
   ex_env_in (executions (snd (query sample sample_config ''How many rows?''
      (sample_instance [undefined_total, overwriting]))) ! 1) ''df'' = Some (Frame 0) \<and>
   ex_env_out (executions (snd (query sample sample_config ''How many rows?''
      (sample_instance [undefined_total, overwriting]))) ! 1) ''df'' = Some (PyInt 7) \<and>
   last_result (snd (query sample sample_config ''How many rows?''
      (sample_instance [undefined_total, overwriting]))) = Some (PyInt 7)"
  by (simp add: sample_defs pipeline_defs run_loop.simps query_def
      undefined_total_def overwriting_def)

text \<open>
  C4 fails on the code: when the budget is used up the loop ends without raising, and
  \<^verbatim>\<open>run_code\<close> returns whatever \<^verbatim>\<open>result\<close> is bound to. With a program that raises on
  each of the three attempts, \<^verbatim>\<open>run_code\<close> returns \<^verbatim>\<open>None\<close> and the message of \<^verbatim>\<open>query\<close>
  carries the \<^verbatim>\<open>TypeError\<close> of \<^verbatim>\<open>len(None)\<close>, not the \<^verbatim>\<open>NameError\<close> of the last attempt;
  with a program that binds \<^verbatim>\<open>result\<close> before it raises, \<^verbatim>\<open>query\<close> returns that partial
  result and no failure message.
\<close>

theorem exhausted_loop_does_not_raise:
  "map ex_error (executions (snd (query sample sample_config ''How many rows?''
      (sample_instance [only_failing, only_failing, only_failing, only_failing])))) =
     [Some (NameError (''name '' @ quoted ''undefined'' @ '' is not defined'')),
      Some (NameError (''name '' @ quoted ''undefined'' @ '' is not defined'')),
      Some (NameError (''name '' @ quoted ''undefined'' @ '' is not defined''))] \<and>
   last_result (snd (query sample sample_config ''How many rows?''
      (sample_instance [only_failing, only_failing, only_failing, only_failing]))) =
     Some PyNone \<and>
   fst (query sample sample_config ''How many rows?''
      (sample_instance [only_failing, only_failing, only_failing, only_failing])) =
     Inr (PyStr (failure_message (TypeError ''object of type 'NoneType' has no len()''))) \<and>
   fst (query sample sample_config ''How many rows?''
      (sample_instance [partial_then_failing, partial_then_failing, partial_then_failing,
         partial_then_failing])) = Inr (PyStr ''partial'')"
  by (simp add: sample_defs pipeline_defs run_loop.simps query_def
      only_failing_def partial_then_failing_def)

text \<open>
  C7 fails on the code: given a list of tables, \<^verbatim>\<open>run_code\<close> never calls \<^verbatim>\<open>exec\<close> and
  never returns a value; when the sanitizer and the environment builder succeed it
  raises the \<^verbatim>\<open>UnboundLocalError\<close> of its last line.
\<close>

theorem multiple_tables_never_executed:
  "(\<exists>e. fst (run_code col cfg c0 (PyList tables) ecf s) = Inl e) \<and>
   executions (snd (run_code col cfg c0 (PyList tables) ecf s)) = executions s \<and>
   fst (run_code sample sample_config well_formed (PyList [Frame 1, Frame 2]) True
          (sample_instance [])) =
     Inl (UnboundLocalError ''local variable 'result' referenced before assignment'')"
proof -
  obtain r s2 where p: "prepare_run col cfg c0 s = (r, s2)"
    by (cases "prepare_run col cfg c0 s")
  note st = prepare_run_state [OF p]
  have "(\<exists>e. fst (run_code col cfg c0 (PyList tables) ecf s) = Inl e) \<and>
      executions (snd (run_code col cfg c0 (PyList tables) ecf s)) = executions s"
    using p st by (cases r) (auto simp: run_code_def)
  moreover have "fst (run_code sample sample_config well_formed (PyList [Frame 1, Frame 2]) True
          (sample_instance [])) =
     Inl (UnboundLocalError ''local variable 'result' referenced before assignment'')"
    by (simp add: sample_defs pipeline_defs well_formed_def)
  ultimately show ?thesis by blast
qed

text \<open>
  C9 fails on the code: with the conversational answer on, \<^verbatim>\<open>output\<close> becomes what
  \<^verbatim>\<open>conversational_answer\<close> returns, and \<^verbatim>\<open>output["type"]\<close> is then read from it. With
  privacy off the sentence of the generation service is a string, with privacy on the
  raw value is the number 42: both times the subscript raises a \<^verbatim>\<open>TypeError\<close> and
  \<^verbatim>\<open>query\<close> returns the failure message. With the conversational answer off the raw
  value is returned.
\<close>

theorem conversational_answer_is_lost:
  "fst (query sample (sample_config\<lparr>conversational_answer := True\<rparr>) ''How many rows?''
      (sample_instance [well_formed])) =
     Inr (PyStr (failure_message (TypeError ''string indices must be integers''))) \<and>
   fst (query sample (sample_config\<lparr>conversational_answer := True, enforce_privacy := True\<rparr>)
      ''How many rows?'' (sample_instance [well_formed])) =
     Inr (PyStr (failure_message (TypeError (quoted ''int'' @ '' object is not subscriptable'')))) \<and>
   fst (query sample sample_config ''How many rows?'' (sample_instance [well_formed])) =
     Inr (PyInt 42)"
  by (simp add: sample_defs pipeline_defs run_loop.simps query_def well_formed_def)

section \<open>The sanitizer's two rules\<close>

lemma imported_module_node:
  assumes "imported_module node = Some m"
  shows "is_import node" and "node_module node = Inr m"
  using assms by (induction node rule: imported_module.induct) auto

lemma check_imports_passes:
  assumes "is_import node" and "passes col cfg node"
  shows "check_imports col cfg node deps = Inr (deps @ dependencies_of col cfg node)"
  using assms
  by (auto simp: check_imports_def passes_def dependencies_of_def whitelisted_def Let_def
      split: sum.splits)

lemma check_imports_fails:
  assumes "is_import node" and "\<not> passes col cfg node"
  shows "\<exists>e. check_imports col cfg node deps = Inl e"
  using assms
  by (auto simp: check_imports_def passes_def whitelisted_def Let_def split: sum.splits)

lemma check_imports_unapproved:
  assumes "node_module node = Inr m" and "library_of m \<noteq> ''pandas''"
    and "\<not> whitelisted col cfg (library_of m)"
    and "library_of m \<notin> set (WHITELISTED_BUILTINS col)"
  shows "check_imports col cfg node deps = Inl (BadImportError (library_of m))"
  using assms by (simp add: check_imports_def whitelisted_def Let_def)

lemma clean_body_passes:
  "list_all (passes col cfg) body \<Longrightarrow>
   clean_body col cfg body acc deps =
     (Inr (acc @ filter kept body), deps @ concat (map (dependencies_of col cfg) body))"
proof (induction body arbitrary: acc deps)
  case Nil
  then show ?case by simp
next
  case (Cons node rest)
  then have node: "passes col cfg node" and rest: "list_all (passes col cfg) rest"
    by simp_all
  show ?case
  proof (cases "is_import node")
    case True
    with node Cons.IH [OF rest] show ?thesis
      by (simp add: check_imports_passes kept_def)
  next
    case False
    then have "dependencies_of col cfg node = []"
      by (simp add: dependencies_of_def split: sum.splits)
    moreover from False node have "\<not> no_targets node"
      by (simp add: passes_def)
    ultimately show ?thesis
      using False Cons.IH [OF rest] by (simp add: kept_def)
  qed
qed

lemma clean_body_succeeds:
  "fst (clean_body col cfg body acc deps) = Inr new_body \<Longrightarrow> list_all (passes col cfg) body"
proof (induction body arbitrary: acc deps)
  case Nil
  then show ?case by simp
next
  case (Cons node rest)
  show ?case
  proof (cases "is_import node")
    case True
    show ?thesis
    proof (cases "passes col cfg node")
      case p: True
      with True Cons.prems have "fst (clean_body col cfg rest acc (deps @ dependencies_of col cfg node)) = Inr new_body"
        by (simp add: check_imports_passes)
      from Cons.IH [OF this] p show ?thesis by simp
    next
      case False
      with check_imports_fails [OF True False, of deps] True Cons.prems show ?thesis
        by auto
    qed
  next
    case False
    with Cons.prems have targets: "\<not> no_targets node"
      by (auto split: if_splits)
    with False have p: "passes col cfg node"
      by (simp add: passes_def)
    from False targets Cons.prems
    have "\<exists>acc'. fst (clean_body col cfg rest acc' deps) = Inr new_body"
      by (auto split: if_splits)
    then obtain acc' where "fst (clean_body col cfg rest acc' deps) = Inr new_body" ..
    from Cons.IH [OF this] p show ?thesis by simp
  qed
qed

lemma clean_body_refuses:
  assumes "list_all (passes col cfg) pre" and "is_import node"
    and "check_imports col cfg node (deps @ concat (map (dependencies_of col cfg) pre)) = Inl e"
  shows "fst (clean_body col cfg (pre @ node # post) acc deps) = Inl e"
  using assms
proof (induction pre arbitrary: acc deps)
  case Nil
  then show ?case by simp
next
  case (Cons p pre)
  then have p: "passes col cfg p" and pre: "list_all (passes col cfg) pre"
    by simp_all
  show ?case
  proof (cases "is_import p")
    case True
    from Cons.prems(3) have "check_imports col cfg node
        ((deps @ dependencies_of col cfg p) @ concat (map (dependencies_of col cfg) pre)) = Inl e"
      by simp
    from Cons.IH [OF pre Cons.prems(2) this] True p show ?thesis
      by (simp add: check_imports_passes)
  next
    case False
    then have "dependencies_of col cfg p = []"
      by (simp add: dependencies_of_def split: sum.splits)
    with Cons.prems(3) have "check_imports col cfg node
        (deps @ concat (map (dependencies_of col cfg) pre)) = Inl e"
      by simp
    moreover from False p have "\<not> no_targets p"
      by (simp add: passes_def)
    ultimately show ?thesis
      using Cons.IH [OF pre Cons.prems(2)] False by simp
  qed
qed

lemma clean_code_Module:
  "fst (clean_code col cfg (Module body) s) =
     (case fst (clean_body col cfg body [] []) of
        Inl e \<Rightarrow> Inl e
      | Inr new_body \<Rightarrow> Inr (Module new_body))"
  "additional_dependencies (snd (clean_code col cfg (Module body) s)) =
     snd (clean_body col cfg body [] [])"
  by (cases "clean_body col cfg body [] []"; cases "fst (clean_body col cfg body [] [])";
      simp add: clean_code_def)+

lemma matches_df_df: "matches_df ''df''"
  by simp


text \<open>
  C3, as the code has it, for an import statement at the top level of the code that names
  one module \<open>m\<close> (\<^verbatim>\<open>import m\<close>, \<^verbatim>\<open>import m as x\<close>, \<^verbatim>\<open>from m import ...\<close>), the
  library being the part of \<open>m\<close> before its first dot and not \<^verbatim>\<open>pandas\<close>: when the
  library is on neither whitelist and the top-level statements before it pass,
  sanitization fails with the \<^verbatim>\<open>BadImportError\<close> of that library; when the library is on
  the library whitelist and sanitization succeeds, the statement is not in the output
  and the dependency list holds, in order, one record per imported name, with the
  module \<open>m\<close>, the name and the alias (the name when there is no alias).
\<close>

theorem import_whitelist_top_level:
  assumes "imported_module node = Some m"
  shows "(list_all (passes col cfg) pre \<and> library_of m \<noteq> ''pandas'' \<and>
          \<not> whitelisted col cfg (library_of m) \<and>
          library_of m \<notin> set (WHITELISTED_BUILTINS col) \<longrightarrow>
            fst (clean_code col cfg (Module (pre @ node # post)) s) =
              Inl (BadImportError (library_of m))) \<and>
         (library_of m \<noteq> ''pandas'' \<and> whitelisted col cfg (library_of m) \<and>
          fst (clean_code col cfg (Module (pre @ node # post)) s) = Inr (Module new_body) \<longrightarrow>
            new_body = filter kept (pre @ node # post) \<and> node \<notin> set new_body \<and>
            (\<exists>ds1 ds2. additional_dependencies
                 (snd (clean_code col cfg (Module (pre @ node # post)) s)) =
               ds1 @ map (dependency_of m) (node_names node) @ ds2))"
proof -
  note node = imported_module_node [OF assms]
  let ?body = "pre @ node # post"
  have refused: "fst (clean_code col cfg (Module ?body) s) = Inl (BadImportError (library_of m))"
    if "list_all (passes col cfg) pre" and "library_of m \<noteq> ''pandas''"
      and "\<not> whitelisted col cfg (library_of m)"
      and "library_of m \<notin> set (WHITELISTED_BUILTINS col)"
  proof -
    from check_imports_unapproved [OF node(2) that(2,3,4)]
    have "fst (clean_body col cfg ?body [] []) = Inl (BadImportError (library_of m))"
      by (intro clean_body_refuses [OF that(1) node(1)]) simp
    then show ?thesis
      by (simp add: clean_code_Module)
  qed
  have recorded: "new_body = filter kept ?body \<and> node \<notin> set new_body \<and>
      (\<exists>ds1 ds2. additional_dependencies (snd (clean_code col cfg (Module ?body) s)) =
         ds1 @ map (dependency_of m) (node_names node) @ ds2)"
    if lib: "library_of m \<noteq> ''pandas''" "whitelisted col cfg (library_of m)"
      and ok: "fst (clean_code col cfg (Module ?body) s) = Inr (Module new_body)"
  proof -
    from ok have "fst (clean_body col cfg ?body [] []) = Inr new_body"
      by (simp add: clean_code_Module split: sum.splits)
    from clean_body_succeeds [OF this] have "list_all (passes col cfg) ?body" .
    from clean_body_passes [OF this, of "[]" "[]"]
    have cb: "clean_body col cfg ?body [] [] =
        (Inr (filter kept ?body), concat (map (dependencies_of col cfg) ?body))"
      by simp
    with ok have nb: "new_body = filter kept ?body"
      by (simp add: clean_code_Module)
    have "\<not> kept node"
      using node(1) by (simp add: kept_def)
    with nb have gone: "node \<notin> set new_body"
      by simp
    have "dependencies_of col cfg node = map (dependency_of m) (node_names node)"
      using node lib by (simp add: dependencies_of_def)
    with cb have "additional_dependencies (snd (clean_code col cfg (Module ?body) s)) =
        concat (map (dependencies_of col cfg) pre) @ map (dependency_of m) (node_names node) @
        concat (map (dependencies_of col cfg) post)"
      by (simp add: clean_code_Module)
    with nb gone show ?thesis by blast
  qed
  from refused recorded show ?thesis by blast
qed

theorem import_whitelist_top_level_witness:
  "fst (clean_code sample sample_config
      (Module [Import [Alias ''numpy'' (Some ''np'')], Import [Alias ''os'' None],
               Assign [Name ''result''] (Const (PyInt 1))])
      (sample_instance [])) = Inl (BadImportError ''os'') \<and>
   fst (clean_code sample sample_config
      (Module [ImportFrom (Some ''matplotlib.pyplot'') [Alias ''plot'' None, Alias ''show'' (Some ''sh'')] 0,
               Assign [Name ''result''] (Const (PyInt 1))])
      (sample_instance [])) = Inr (Module [Assign [Name ''result''] (Const (PyInt 1))]) \<and>
   additional_dependencies (snd (clean_code sample sample_config
      (Module [ImportFrom (Some ''matplotlib.pyplot'') [Alias ''plot'' None, Alias ''show'' (Some ''sh'')] 0,
               Assign [Name ''result''] (Const (PyInt 1))])
      (sample_instance []))) =
     [\<lparr>dep_module = ''matplotlib.pyplot'', dep_name = ''plot'', dep_alias = ''plot''\<rparr>,
      \<lparr>dep_module = ''matplotlib.pyplot'', dep_name = ''show'', dep_alias = ''sh''\<rparr>]"
proof -
  let ?np = "Import [Alias ''numpy'' (Some ''np'')]"
  let ?os = "Import [Alias ''os'' None]"
  let ?plt = "ImportFrom (Some ''matplotlib.pyplot'') [Alias ''plot'' None, Alias ''show'' (Some ''sh'')] 0"
  let ?r = "Assign [Name ''result''] (Const (PyInt 1))"
  have os: "imported_module ?os = Some ''os''"
    by simp
  have pre: "list_all (passes sample sample_config) [?np]"
    by (simp add: passes_def whitelisted_def library_of_def sample_defs)
  have unapproved: "library_of ''os'' \<noteq> ''pandas''" "\<not> whitelisted sample sample_config (library_of ''os'')"
    "library_of ''os'' \<notin> set (WHITELISTED_BUILTINS sample)" "library_of ''os'' = ''os''"
    by (simp_all add: whitelisted_def library_of_def sample_defs)
  from import_whitelist_top_level [OF os, of sample sample_config "[?np]" "[?r]" "sample_instance []"]
    pre unapproved
  have first: "fst (clean_code sample sample_config (Module [?np, ?os, ?r]) (sample_instance [])) =
      Inl (BadImportError ''os'')"
    by simp
  have plt: "imported_module ?plt = Some ''matplotlib.pyplot''"
    by simp
  have approved: "library_of ''matplotlib.pyplot'' \<noteq> ''pandas''"
    "whitelisted sample sample_config (library_of ''matplotlib.pyplot'')"
    by (simp_all add: whitelisted_def library_of_def sample_defs)
  have ok: "fst (clean_code sample sample_config (Module ([] @ ?plt # [?r])) (sample_instance [])) =
      Inr (Module [?r])"
    by (simp add: sample_defs pipeline_defs whitelisted_def dependency_of_def)
  from import_whitelist_top_level [OF plt, of sample sample_config "[]" "[?r]" "sample_instance []" "[?r]"]
    approved ok
  have "?plt \<notin> set [?r]"
    by blast
  moreover have "additional_dependencies (snd (clean_code sample sample_config (Module [?plt, ?r])
      (sample_instance []))) =
     [\<lparr>dep_module = ''matplotlib.pyplot'', dep_name = ''plot'', dep_alias = ''plot''\<rparr>,
      \<lparr>dep_module = ''matplotlib.pyplot'', dep_name = ''show'', dep_alias = ''sh''\<rparr>]"
    by (simp add: sample_defs pipeline_defs whitelisted_def dependency_of_def)
  ultimately show ?thesis
    using first ok by simp
qed

text \<open>
  The claim C3 as the specification states it fails: an import nested in a compound
  statement is not looked at. \<^verbatim>\<open>if 1: import os\<close> passes the sanitizer unchanged
  although \<^verbatim>\<open>os\<close> is on neither whitelist, and \<^verbatim>\<open>if 1: import numpy\<close> is neither
  removed nor recorded as a dependency.
\<close>

theorem nested_import_not_checked:
  "Import [Alias ''os'' None] \<in>
     set (imports_in_body [If (Const (PyInt 1)) [Import [Alias ''os'' None]] []]) \<and>
   import_library (Import [Alias ''os'' None]) = ''os'' \<and>
   \<not> whitelisted sample sample_config ''os'' \<and>
   ''os'' \<notin> set (WHITELISTED_BUILTINS sample) \<and>
   fst (clean_code sample sample_config (nested_import ''os'') (sample_instance [])) =
     Inr (nested_import ''os'') \<and>
   whitelisted sample sample_config ''numpy'' \<and>
   fst (clean_code sample sample_config (nested_import ''numpy'') (sample_instance [])) =
     Inr (nested_import ''numpy'') \<and>
   additional_dependencies
     (snd (clean_code sample sample_config (nested_import ''numpy'') (sample_instance []))) = []"
  by (simp add: sample_defs pipeline_defs whitelisted_def import_library_def nested_import_def)




end
